theory Spec2Isabelle
  imports Complex_Main "HOL-Library.Multiset"
begin

section \<open>Python values shared by the modules\<close>

text \<open>
  The modules under verification are \<^verbatim>\<open>tools/time_utils.py\<close>, \<^verbatim>\<open>config.py\<close> and
  \<^verbatim>\<open>tools/utils.py\<close>. Python raises where HOL is total, so a function that can raise
  returns a value of \<open>exn + 'a\<close>, with \<open>Inl\<close> for the exception.
\<close>

datatype exn =
    NoSectionError | NoOptionError | InterpolationError
  | ValueError | TypeError | OSError | JSONDecodeError
  | AppError string

text \<open>
  Python numbers keep their run-time type: \<^verbatim>\<open>(end_ts - start_ts) / 2\<close> is a float even
  when both operands are ints, and \<^verbatim>\<open>f"{hours:02d}"\<close> raises on a float. A float is
  represented by the rational it denotes; the timestamps handled here are halves of
  integers far below \<open>2 ^ 53\<close>, on which float arithmetic is exact.
\<close>

datatype number = PyInt int | PyFloat rat

fun num_val :: "number \<Rightarrow> rat" where
  "num_val (PyInt i) = of_int i"
| "num_val (PyFloat r) = r"

fun py_add :: "number \<Rightarrow> number \<Rightarrow> number" where
  "py_add (PyInt x) (PyInt y) = PyInt (x + y)"
| "py_add a b = PyFloat (num_val a + num_val b)"

fun py_sub :: "number \<Rightarrow> number \<Rightarrow> number" where
  "py_sub (PyInt x) (PyInt y) = PyInt (x - y)"
| "py_sub a b = PyFloat (num_val a - num_val b)"

text \<open>True division \<^verbatim>\<open>a / b\<close> always yields a float (the divisor used is the literal 2).\<close>

definition py_truediv :: "number \<Rightarrow> number \<Rightarrow> number" where
  "py_truediv a b = PyFloat (num_val a / num_val b)"

text \<open>
  Floor division and remainder, \<^verbatim>\<open>a // b\<close> and \<^verbatim>\<open>a % b\<close>, for the positive literal
  divisors of the source: on ints they are \<open>div\<close> and \<open>mod\<close> (both floor-based, as in
  Python), and as soon as one operand is a float the result is a float.
\<close>

fun py_floordiv :: "number \<Rightarrow> number \<Rightarrow> number" where
  "py_floordiv (PyInt x) (PyInt y) = PyInt (x div y)"
| "py_floordiv a b = PyFloat (of_int \<lfloor>num_val a / num_val b\<rfloor>)"

fun py_mod :: "number \<Rightarrow> number \<Rightarrow> number" where
  "py_mod (PyInt x) (PyInt y) = PyInt (x mod y)"
| "py_mod a b = PyFloat (num_val a - num_val b * of_int \<lfloor>num_val a / num_val b\<rfloor>)"

text \<open>\<^verbatim>\<open>max(a, b)\<close> returns its first argument unless the second is strictly larger.\<close>

definition py_max :: "number \<Rightarrow> number \<Rightarrow> number" where
  "py_max a b = (if num_val a < num_val b then b else a)"

section \<open>Time synchronisation (tools/time\_utils.py)\<close>

subsection \<open>TimeSync\<close>

text \<open>
  The fields \<^verbatim>\<open>_server_timestamp\<close>, \<^verbatim>\<open>_local_timestamp\<close> and \<^verbatim>\<open>_time_diff\<close> of the class;
  the HTTP session is not part of the model. \<^verbatim>\<open>__init__\<close> stores \<^verbatim>\<open>None\<close>, \<^verbatim>\<open>None\<close> and the
  int \<^verbatim>\<open>0\<close>.
\<close>

record TimeSync =
  server_timestamp :: "number option"
  local_timestamp :: "number option"
  time_diff :: number

definition TimeSync_init :: TimeSync where
  "TimeSync_init = \<lparr>server_timestamp = None, local_timestamp = None, time_diff = PyInt 0\<rparr>"

text \<open>
  What \<^verbatim>\<open>_server_time()\<close> hands back to \<^verbatim>\<open>sync\<close>. It catches its own exceptions, so a
  failed request, a response that is not ok and a body without \<^verbatim>\<open>serverTimeMs\<close> all
  arrive as \<^verbatim>\<open>None\<close> (\<open>NoReply\<close>); \<open>ServerMs s\<close> is an integer field; \<open>Malformed\<close> is a
  truthy field that is no number, on which \<^verbatim>\<open>local_ts - server_ts\<close> raises \<^verbatim>\<open>TypeError\<close>.
\<close>

datatype server_reply = NoReply | ServerMs int | Malformed

text \<open>
  One sampling round, as the environment answers it: the clock reading before the
  request, the reply, and the clock reading after it. A sample is the triple
  \<^verbatim>\<open>(server_ts, local_ts, diff)\<close>.
\<close>

type_synonym round = "int \<times> server_reply \<times> int"
type_synonym sample = "number \<times> number \<times> number"

definition sample_diff :: "sample \<Rightarrow> rat" where
  "sample_diff x = num_val (snd (snd x))"

text \<open>
  The body of the \<^verbatim>\<open>for\<close> loop: \<open>Some\<close> sample when one is appended. \<^verbatim>\<open>if server_ts:\<close>
  skips \<^verbatim>\<open>None\<close> and also the integer 0; the \<^verbatim>\<open>TypeError\<close> of a malformed field is
  caught by the \<^verbatim>\<open>except\<close> clause of the round, which only logs a warning.
\<close>

fun sample_round :: "round \<Rightarrow> sample option" where
  "sample_round (start_ts, NoReply, end_ts) = None"
| "sample_round (start_ts, Malformed, end_ts) = None"
| "sample_round (start_ts, ServerMs server_ts, end_ts) =
     (if server_ts = 0 then None
      else
        let latency = py_truediv (PyInt (end_ts - start_ts)) (PyInt 2);
            local_ts = py_add (PyInt start_ts) latency;
            diff = py_sub local_ts (PyInt server_ts)
        in Some (PyInt server_ts, local_ts, diff))"

text \<open>\<^verbatim>\<open>for i in range(3)\<close>: three rounds, the samples appended in order.\<close>

definition collect_samples :: "round \<times> round \<times> round \<Rightarrow> sample list" where
  "collect_samples rounds =
     (case rounds of (r0, r1, r2) \<Rightarrow> List.map_filter sample_round [r0, r1, r2])"

text \<open>
  \<^verbatim>\<open>sync\<close>. The argument \<open>now\<close> is the clock reading taken in the degraded branch.
  \<^verbatim>\<open>samples.sort(key=lambda x: x[2])\<close> is a stable sort, as \<open>sort_key\<close> is. The result is
  the returned triple and the object after the call. The log lines and the pause of
  0.1 s after each round are not modelled.
\<close>

definition sync :: "TimeSync \<Rightarrow> round \<times> round \<times> round \<Rightarrow> int \<Rightarrow> sample \<times> TimeSync" where
  "sync self rounds now =
     (let samples = collect_samples rounds in
      if samples = [] then ((PyInt now, PyInt now, PyInt 0), self)
      else
        let sorted_samples = sort_key sample_diff samples;
            median_sample = sorted_samples ! (length sorted_samples div 2);
            self' = self\<lparr>server_timestamp := Some (fst median_sample),
                         local_timestamp := Some (fst (snd median_sample)),
                         time_diff := snd (snd median_sample)\<rparr>
        in ((the (server_timestamp self'), the (local_timestamp self'), time_diff self'), self'))"

text \<open>\<^verbatim>\<open>get_server_time\<close>: the clock reading \<open>now\<close> minus the stored offset.\<close>

definition get_server_time :: "TimeSync \<Rightarrow> int \<Rightarrow> number" where
  "get_server_time self now = py_sub (PyInt now) (time_diff self)"

subsection \<open>CountdownTimer\<close>

text \<open>
  The timer holds the \<^verbatim>\<open>TimeSync\<close> it was built with and the target time. A target
  \<^verbatim>\<open>datetime\<close> enters the code only through \<^verbatim>\<open>int(target.timestamp() * 1000)\<close>, so it
  is represented by that integer; \<open>None\<close> is the field before \<^verbatim>\<open>set_target\<close> (a
  \<^verbatim>\<open>datetime\<close> object is always truthy, so \<^verbatim>\<open>not self._target_time\<close> holds for
  \<^verbatim>\<open>None\<close> only).
\<close>

record CountdownTimer =
  time_sync :: TimeSync
  target_time :: "int option"

definition CountdownTimer_init :: "TimeSync \<Rightarrow> CountdownTimer" where
  "CountdownTimer_init ts = \<lparr>time_sync = ts, target_time = None\<rparr>"

definition set_target :: "CountdownTimer \<Rightarrow> int \<Rightarrow> CountdownTimer" where
  "set_target self target_ts = self\<lparr>target_time := Some target_ts\<rparr>"

text \<open>\<^verbatim>\<open>get_remaining_ms\<close>; \<open>now\<close> is the clock reading \<^verbatim>\<open>get_server_time\<close> takes.\<close>

definition get_remaining_ms :: "CountdownTimer \<Rightarrow> int \<Rightarrow> number" where
  "get_remaining_ms self now =
     (case target_time self of
        None \<Rightarrow> PyInt 0
      | Some target_ts \<Rightarrow>
          let current_server_ts = get_server_time (time_sync self) now
          in py_max (py_sub (PyInt target_ts) current_server_ts) (PyInt 0))"

text \<open>
  The decomposition that \<^verbatim>\<open>get_remaining_parts\<close> applies to the local variable
  \<^verbatim>\<open>remaining_ms\<close>, and the method itself.
\<close>

definition remaining_parts :: "number \<Rightarrow> number \<times> number \<times> number \<times> number \<times> number" where
  "remaining_parts remaining_ms =
     (let days = py_floordiv remaining_ms (PyInt (24 * 60 * 60 * 1000));
          r1 = py_mod remaining_ms (PyInt (24 * 60 * 60 * 1000));
          hours = py_floordiv r1 (PyInt (60 * 60 * 1000));
          r2 = py_mod r1 (PyInt (60 * 60 * 1000));
          minutes = py_floordiv r2 (PyInt (60 * 1000));
          r3 = py_mod r2 (PyInt (60 * 1000));
          seconds = py_floordiv r3 (PyInt 1000);
          milliseconds = py_mod r3 (PyInt 1000)
      in (days, hours, minutes, seconds, milliseconds))"

definition get_remaining_parts ::
    "CountdownTimer \<Rightarrow> int \<Rightarrow> number \<times> number \<times> number \<times> number \<times> number" where
  "get_remaining_parts self now = remaining_parts (get_remaining_ms self now)"

text \<open>
  \<^verbatim>\<open>format_remaining\<close>. The text is kept as the list of its parts: \<open>Plain x u\<close> is
  \<^verbatim>\<open>str(x)\<close> followed by the suffix of unit \<open>u\<close>, \<open>Padded w i u\<close> is the int \<open>i\<close> zero-padded
  to width \<open>w\<close> followed by the suffix. The format code \<^verbatim>\<open>d\<close> raises \<^verbatim>\<open>ValueError\<close> on a
  float.
\<close>

datatype time_unit = Days | Hours | Minutes | Seconds | Milliseconds

datatype text_part = Plain number time_unit | Padded nat int time_unit

definition bind_exn :: "exn + 'a \<Rightarrow> ('a \<Rightarrow> exn + 'b) \<Rightarrow> exn + 'b" where
  "bind_exn m f = (case m of Inl e \<Rightarrow> Inl e | Inr v \<Rightarrow> f v)"

fun format_d :: "nat \<Rightarrow> number \<Rightarrow> time_unit \<Rightarrow> exn + text_part" where
  "format_d w (PyInt i) u = Inr (Padded w i u)"
| "format_d w (PyFloat r) u = Inl ValueError"

definition format_remaining :: "CountdownTimer \<Rightarrow> int \<Rightarrow> exn + text_part list" where
  "format_remaining self now =
     (case get_remaining_parts self now of (days, hours, minutes, seconds, ms) \<Rightarrow>
        let parts = (if 0 < num_val days then [Plain days Days] else []) in
        bind_exn (if 0 < num_val hours \<or> 0 < num_val days
                  then bind_exn (format_d 2 hours Hours) (\<lambda>p. Inr (parts @ [p]))
                  else Inr parts) (\<lambda>parts.
        bind_exn (format_d 2 minutes Minutes) (\<lambda>p_min.
        bind_exn (format_d 2 seconds Seconds) (\<lambda>p_sec.
        bind_exn (format_d 3 ms Milliseconds) (\<lambda>p_ms.
        Inr (parts @ [p_min, p_sec, p_ms]))))))"

definition is_time_to_start :: "CountdownTimer \<Rightarrow> int \<Rightarrow> bool" where
  "is_time_to_start self now = (num_val (get_remaining_ms self now) \<le> 0)"

text \<open>
  \<^verbatim>\<open>wait_until_ready\<close>. The loop may run forever, so it is a partial function: \<open>None\<close>
  is the loop that never leaves. The clock is the sequence \<open>clock\<close> of its successive
  readings and \<open>k\<close> counts the readings taken so far: \<^verbatim>\<open>get_remaining_ms\<close> takes one
  when a target is stored, \<^verbatim>\<open>format_remaining\<close> another. The result is how the call
  ends (\<open>Inr ()\<close> for the \<^verbatim>\<open>break\<close>, \<open>Inl\<close> for an exception of the log line) and the
  log lines and sleeps (in seconds) on the way.
\<close>

datatype event = LogInfo "text_part list" | Sleep rat

definition next_reading :: "CountdownTimer \<Rightarrow> nat \<Rightarrow> nat" where
  "next_reading self k = (case target_time self of None \<Rightarrow> k | Some t \<Rightarrow> Suc k)"

partial_function (option) wait_until_ready ::
    "CountdownTimer \<Rightarrow> int \<Rightarrow> (nat \<Rightarrow> int) \<Rightarrow> nat \<Rightarrow> event list
       \<Rightarrow> ((exn + unit) \<times> event list) option" where
  "wait_until_ready self advance_ms clock k trace =
     (let remaining = num_val (get_remaining_ms self (clock k));
          k1 = next_reading self k
      in
        if remaining \<le> of_int advance_ms then Some (Inr (), trace)
        else if remaining > 60000 then
          (case format_remaining self (clock k1) of
             Inl e \<Rightarrow> Some (Inl e, trace)
           | Inr txt \<Rightarrow>
               wait_until_ready self advance_ms clock (next_reading self k1)
                 (trace @ [LogInfo txt, Sleep 10]))
        else if remaining > 10000 then
          (case format_remaining self (clock k1) of
             Inl e \<Rightarrow> Some (Inl e, trace)
           | Inr txt \<Rightarrow>
               wait_until_ready self advance_ms clock (next_reading self k1)
                 (trace @ [LogInfo txt, Sleep 1]))
        else if remaining > 1000 then
          (case format_remaining self (clock k1) of
             Inl e \<Rightarrow> Some (Inl e, trace)
           | Inr txt \<Rightarrow>
               wait_until_ready self advance_ms clock (next_reading self k1)
                 (trace @ [LogInfo txt, Sleep (1 / 10)]))
        else wait_until_ready self advance_ms clock k1 (trace @ [Sleep (1 / 1000)]))"

text \<open>
  The day/hour/minute/second/millisecond breakdown of a duration \<open>R\<close> in milliseconds:
  whole days, hours below 24, minutes and seconds below 60, milliseconds below 1000,
  adding up to \<open>R\<close>.
\<close>

definition breakdown_of ::
    "rat \<Rightarrow> number \<times> number \<times> number \<times> number \<times> number \<Rightarrow> bool" where
  "breakdown_of R parts =
     (case parts of (d, h, m, s, ms) \<Rightarrow>
        num_val d * 86400000 + num_val h * 3600000 + num_val m * 60000 + num_val s * 1000
          + num_val ms = R
      \<and> num_val d \<in> \<int> \<and> num_val h \<in> \<int> \<and> num_val m \<in> \<int> \<and> num_val s \<in> \<int>
      \<and> 0 \<le> num_val d
      \<and> 0 \<le> num_val h \<and> num_val h < 24
      \<and> 0 \<le> num_val m \<and> num_val m < 60
      \<and> 0 \<le> num_val s \<and> num_val s < 60
      \<and> 0 \<le> num_val ms \<and> num_val ms < 1000)"

declare wait_until_ready.simps [code]

section \<open>Configuration (config.py)\<close>

subsection \<open>The fail-soft getters\<close>

text \<open>
  \<^verbatim>\<open>self.config\<close> is a \<^verbatim>\<open>ConfigParser\<close> of the standard library, loaded from the file.
  The class calls four of its methods; each returns a value or raises
  (\<^verbatim>\<open>NoSectionError\<close> for a missing section, \<^verbatim>\<open>NoOptionError\<close> for a missing key,
  \<^verbatim>\<open>ValueError\<close> when \<^verbatim>\<open>int\<close>, \<^verbatim>\<open>float\<close> or the boolean table rejects the text, an
  interpolation error for a stray percent sign). The library is a parameter of the
  model: a record of what the four methods do on the loaded file.
\<close>

record ConfigParser =
  cp_get :: "string \<Rightarrow> string \<Rightarrow> exn + string"
  cp_getboolean :: "string \<Rightarrow> string \<Rightarrow> exn + bool"
  cp_getint :: "string \<Rightarrow> string \<Rightarrow> exn + int"
  cp_getfloat :: "string \<Rightarrow> string \<Rightarrow> exn + rat"

text \<open>\<^verbatim>\<open>try: body  except: handler\<close>, the bare \<^verbatim>\<open>except\<close> catching every exception.\<close>

definition try_except :: "exn + 'a \<Rightarrow> (exn \<Rightarrow> exn + 'a) \<Rightarrow> exn + 'a" where
  "try_except body handler = (case body of Inl e \<Rightarrow> handler e | Inr v \<Rightarrow> Inr v)"

text \<open>
  \<^verbatim>\<open>default_value if default_value is not None else z\<close>: the argument \<open>None\<close> is both the
  omitted default and an explicit \<^verbatim>\<open>None\<close>.
\<close>

definition default_or :: "'a option \<Rightarrow> 'a \<Rightarrow> 'a" where
  "default_or default_value z = (case default_value of Some d \<Rightarrow> d | None \<Rightarrow> z)"

definition get :: "ConfigParser \<Rightarrow> string \<Rightarrow> string \<Rightarrow> string option \<Rightarrow> exn + string" where
  "get config section option default_value =
     try_except (cp_get config section option) (\<lambda>e. Inr (default_or default_value ''''))"

definition getboolean :: "ConfigParser \<Rightarrow> string \<Rightarrow> string \<Rightarrow> bool option \<Rightarrow> exn + bool" where
  "getboolean config section option default_value =
     try_except (cp_getboolean config section option)
       (\<lambda>e. Inr (default_or default_value False))"

definition getint :: "ConfigParser \<Rightarrow> string \<Rightarrow> string \<Rightarrow> int option \<Rightarrow> exn + int" where
  "getint config section option default_value =
     try_except (cp_getint config section option) (\<lambda>e. Inr (default_or default_value 0))"

definition getfloat :: "ConfigParser \<Rightarrow> string \<Rightarrow> string \<Rightarrow> rat option \<Rightarrow> exn + rat" where
  "getfloat config section option default_value =
     try_except (cp_getfloat config section option) (\<lambda>e. Inr (default_or default_value 0))"

text \<open>
  The parser loaded from the two-line file \<^verbatim>\<open>[process]\<close>, \<^verbatim>\<open>thread=abc\<close>: the only
  section is \<^verbatim>\<open>process\<close> and its only key \<^verbatim>\<open>thread\<close> holds text that is no integer, no
  float and no boolean word.
\<close>

definition thread_abc_parser :: ConfigParser where
  "thread_abc_parser =
     \<lparr>cp_get = (\<lambda>section option.
         if section \<noteq> ''process'' then Inl NoSectionError
         else if option \<noteq> ''thread'' then Inl NoOptionError else Inr ''abc''),
      cp_getboolean = (\<lambda>section option.
         if section \<noteq> ''process'' then Inl NoSectionError
         else if option \<noteq> ''thread'' then Inl NoOptionError else Inl ValueError),
      cp_getint = (\<lambda>section option.
         if section \<noteq> ''process'' then Inl NoSectionError
         else if option \<noteq> ''thread'' then Inl NoOptionError else Inl ValueError),
      cp_getfloat = (\<lambda>section option.
         if section \<noteq> ''process'' then Inl NoSectionError
         else if option \<noteq> ''thread'' then Inl NoOptionError else Inl ValueError)\<rparr>"

subsection \<open>The settings tree and its validation\<close>

text \<open>
  The dataclasses. Field names are global in a theory, so \<^verbatim>\<open>name\<close>, \<^verbatim>\<open>password\<close>,
  \<^verbatim>\<open>id\<close> and \<^verbatim>\<open>type\<close> carry the name of their class. The float \<^verbatim>\<open>interval\<close> is the
  rational it denotes; \<open>MIN_INTERVAL\<close> stands for the float written \<^verbatim>\<open>0.001\<close>, and no
  float lies between that float and the rational \<open>1 / 1000\<close>, so the comparison
  \<^verbatim>\<open>interval < MIN_INTERVAL\<close> is the same on both.
\<close>

record UserConfig =
  user_name :: string
  user_password :: string

record ProductConfig =
  product_name :: string
  product_id :: string
  color :: string
  version :: string
  payment :: string
  sets :: string

record BrowserConfig =
  browser_type :: string
  driver_path :: string
  headless :: bool
  user_agent :: string
  proxy :: string

record ProcessConfig =
  thread :: int
  interval :: rat
  retry_times :: int
  timeout :: int

record NotifyConfig =
  enable_sound :: bool
  enable_email :: bool
  email_to :: string
  email_from :: string
  email_password :: string

record AppConfig =
  user :: UserConfig
  product :: ProductConfig
  browser :: BrowserConfig
  process :: ProcessConfig
  notify :: NotifyConfig

definition SUPPORTED_BROWSERS :: "string list" where
  "SUPPORTED_BROWSERS = [''chrome'', ''firefox'', ''edge'', ''safari'']"

definition MAX_THREADS :: int where
  "MAX_THREADS = 20"

definition MIN_INTERVAL :: rat where
  "MIN_INTERVAL = 1 / 1000"

text \<open>
  The messages of \<^verbatim>\<open>validate\<close> are fixed texts, pairwise different; each constructor
  stands for one of them, in the order of the source. \<open>UnsupportedBrowser t\<close> is the text
  that ends with the browser type \<open>t\<close>, \<open>ThreadAboveMax n\<close> and \<open>IntervalBelowMin x\<close>
  embed \<^verbatim>\<open>MAX_THREADS\<close> and \<^verbatim>\<open>MIN_INTERVAL\<close>.
\<close>

datatype error_message =
    EmptyUserName | EmptyPassword | EmptyProductId | UnsupportedBrowser string | ThreadBelowOne

datatype warning_message =
    NoColor | NoVersion | HeadlessWithoutUserAgent | ThreadAboveMax int | IntervalBelowMin rat

text \<open>
  \<^verbatim>\<open>validate\<close>: the returned error list, the warnings handed to the logger, and the
  settings after the call (the method assigns \<^verbatim>\<open>process.thread\<close> and
  \<^verbatim>\<open>process.interval\<close> in place).
\<close>

definition validate :: "AppConfig \<Rightarrow> error_message list \<times> warning_message list \<times> AppConfig" where
  "validate app_config =
     (let errors = [];
          warnings = [];
          errors = (if user_name (user app_config) = '''' then errors @ [EmptyUserName]
                    else errors);
          errors = (if user_password (user app_config) = '''' then errors @ [EmptyPassword]
                    else errors);
          errors = (if product_id (product app_config) = '''' then errors @ [EmptyProductId]
                    else errors);
          warnings = (if color (product app_config) = '''' then warnings @ [NoColor]
                      else warnings);
          warnings = (if version (product app_config) = '''' then warnings @ [NoVersion]
                      else warnings);
          errors = (if browser_type (browser app_config) \<notin> set SUPPORTED_BROWSERS
                    then errors @ [UnsupportedBrowser (browser_type (browser app_config))]
                    else errors);
          warnings = (if headless (browser app_config)
                         \<and> user_agent (browser app_config) = ''''
                      then warnings @ [HeadlessWithoutUserAgent] else warnings);
          (errors, warnings, app_config) =
            (if thread (process app_config) < 1
             then (errors @ [ThreadBelowOne], warnings, app_config)
             else if thread (process app_config) > MAX_THREADS
             then (errors, warnings @ [ThreadAboveMax MAX_THREADS],
                   app_config\<lparr>process := (process app_config)\<lparr>thread := MAX_THREADS\<rparr>\<rparr>)
             else (errors, warnings, app_config));
          (warnings, app_config) =
            (if interval (process app_config) < MIN_INTERVAL
             then (warnings @ [IntervalBelowMin MIN_INTERVAL],
                   app_config\<lparr>process := (process app_config)\<lparr>interval := MIN_INTERVAL\<rparr>\<rparr>)
             else (warnings, app_config))
      in (errors, warnings, app_config))"

text \<open>
  A minimal populated configuration, as loaded from a file that sets the user name, the
  password, the product id and the payment text and leaves every other key to its
  default.
\<close>

definition minimal_config :: AppConfig where
  "minimal_config =
     \<lparr>user = \<lparr>user_name = ''alice'', user_password = ''secret''\<rparr>,
      product = \<lparr>product_name = '''', product_id = ''10086'', color = '''', version = '''',
                 payment = ''full'', sets = ''''\<rparr>,
      browser = \<lparr>browser_type = ''chrome'', driver_path = '''', headless = False,
                 user_agent = '''', proxy = ''''\<rparr>,
      process = \<lparr>thread = 1, interval = 1 / 1000, retry_times = 3, timeout = 30\<rparr>,
      notify = \<lparr>enable_sound = True, enable_email = False, email_to = '''',
                email_from = '''', email_password = ''''\<rparr>\<rparr>"

definition with_thread :: "AppConfig \<Rightarrow> int \<Rightarrow> AppConfig" where
  "with_thread c n = c\<lparr>process := (process c)\<lparr>thread := n\<rparr>\<rparr>"

definition with_interval :: "AppConfig \<Rightarrow> rat \<Rightarrow> AppConfig" where
  "with_interval c x = c\<lparr>process := (process c)\<lparr>interval := x\<rparr>\<rparr>"

section \<open>General utilities (tools/utils.py)\<close>

subsection \<open>The retry decorator\<close>










subsection \<open>CookieManager\<close>

text \<open>
  Python values that \<^verbatim>\<open>json\<close> writes and reads back unchanged: \<^verbatim>\<open>None\<close>, booleans,
  ints, floats (the rational they denote), strings, lists, and dicts with string keys
  (an association list in insertion order). A cookie map is such a dict.
\<close>

datatype json =
    JNone | JBool bool | JInt int | JFloat rat | JStr string
  | JList "json list" | JDict "(string \<times> json) list"

type_synonym cookie = "(string \<times> json) list"

text \<open>
  The file system, as far as the class touches it. A path holds nothing, a directory, or
  a file whose text is either the JSON document of a value or no JSON document at all
  (\<open>Junk\<close>; the empty file that \<^verbatim>\<open>open(path, 'w')\<close> leaves is one). \<open>faulty\<close> tells for
  which operation on which path the operating system raises \<^verbatim>\<open>OSError\<close> (permissions,
  a missing parent directory, a full disk).
\<close>

datatype file_content = JsonText json | Junk

datatype node = File file_content | Directory

datatype io_op = OpenRead | OpenWrite | WriteData | Remove

record filesystem =
  nodes :: "string \<Rightarrow> node option"
  faulty :: "io_op \<Rightarrow> string \<Rightarrow> bool"

definition path_exists :: "filesystem \<Rightarrow> string \<Rightarrow> bool" where
  "path_exists fs path = (nodes fs path \<noteq> None)"

text \<open>\<^verbatim>\<open>open(path, 'w')\<close>: creates the file or truncates it.\<close>

definition open_w :: "filesystem \<Rightarrow> string \<Rightarrow> exn + filesystem" where
  "open_w fs path =
     (if faulty fs OpenWrite path \<or> nodes fs path = Some Directory then Inl OSError
      else Inr (fs\<lparr>nodes := (nodes fs)(path \<mapsto> File Junk)\<rparr>))"

text \<open>
  \<^verbatim>\<open>json.dump(cookies, f, ensure_ascii=False, indent=2)\<close> into the file just opened: the
  file then holds the document of the list of cookie maps.
\<close>

definition json_dump :: "cookie list \<Rightarrow> filesystem \<Rightarrow> string \<Rightarrow> exn + filesystem" where
  "json_dump cookies fs path =
     (if faulty fs WriteData path then Inl OSError
      else Inr (fs\<lparr>nodes := (nodes fs)(path \<mapsto> File (JsonText (JList (map JDict cookies))))\<rparr>))"

text \<open>\<^verbatim>\<open>open(path, 'r')\<close> and \<^verbatim>\<open>json.load\<close>.\<close>

definition open_r :: "filesystem \<Rightarrow> string \<Rightarrow> exn + file_content" where
  "open_r fs path =
     (if faulty fs OpenRead path then Inl OSError
      else case nodes fs path of
             Some (File content) \<Rightarrow> Inr content
           | Some Directory \<Rightarrow> Inl OSError
           | None \<Rightarrow> Inl OSError)"

fun json_load :: "file_content \<Rightarrow> exn + json" where
  "json_load (JsonText v) = Inr v"
| "json_load Junk = Inl JSONDecodeError"

text \<open>\<^verbatim>\<open>os.remove(path)\<close>.\<close>

definition os_remove :: "filesystem \<Rightarrow> string \<Rightarrow> exn + filesystem" where
  "os_remove fs path =
     (if faulty fs Remove path then Inl OSError
      else case nodes fs path of
             Some (File content) \<Rightarrow> Inr (fs\<lparr>nodes := (nodes fs)(path := None)\<rparr>)
           | Some Directory \<Rightarrow> Inl OSError
           | None \<Rightarrow> Inl OSError)"

text \<open>
  The class. \<^verbatim>\<open>__init__\<close> takes \<^verbatim>\<open>cookie_file or constants.COOKIES_FILE\<close>, so \<^verbatim>\<open>None\<close> and
  the empty string both select the default path, which is computed from the location
  of the installation and is a parameter here. The lock is not modelled: the calls are
  taken one after the other.
\<close>

record CookieManager =
  cookie_file :: string

definition CookieManager_init :: "string \<Rightarrow> string option \<Rightarrow> CookieManager" where
  "CookieManager_init COOKIES_FILE cookie_file_arg =
     \<lparr>cookie_file = (case cookie_file_arg of
                       None \<Rightarrow> COOKIES_FILE
                     | Some p \<Rightarrow> if p = [] then COOKIES_FILE else p)\<rparr>"

text \<open>
  Each method is one \<^verbatim>\<open>try\<close> block whose \<^verbatim>\<open>except Exception\<close> clause logs and returns
  \<^verbatim>\<open>False\<close> or \<^verbatim>\<open>None\<close>. The result is the outcome of the call (\<open>Inl\<close> would be an
  exception leaving the method) and, for \<^verbatim>\<open>write\<close> and \<^verbatim>\<open>delete\<close>, the file system
  after it. \<^verbatim>\<open>read\<close> returns what \<^verbatim>\<open>json.load\<close> returns, or \<^verbatim>\<open>None\<close>. The method
  \<^verbatim>\<open>write\<close> is named \<open>write'\<close>, since the plain name is taken by the proof language.
\<close>

definition write' :: "CookieManager \<Rightarrow> cookie list \<Rightarrow> filesystem \<Rightarrow> (exn + bool) \<times> filesystem" where
  "write' self cookies fs =
     (case open_w fs (cookie_file self) of
        Inl e \<Rightarrow> (Inr False, fs)
      | Inr fs1 \<Rightarrow>
          (case json_dump cookies fs1 (cookie_file self) of
             Inl e \<Rightarrow> (Inr False, fs1)
           | Inr fs2 \<Rightarrow> (Inr True, fs2)))"

definition read :: "CookieManager \<Rightarrow> filesystem \<Rightarrow> exn + json" where
  "read self fs =
     (if \<not> path_exists fs (cookie_file self) then Inr JNone
      else case open_r fs (cookie_file self) of
             Inl e \<Rightarrow> Inr JNone
           | Inr content \<Rightarrow>
               (case json_load content of
                  Inl e \<Rightarrow> Inr JNone
                | Inr v \<Rightarrow> Inr v))"

definition delete :: "CookieManager \<Rightarrow> filesystem \<Rightarrow> (exn + bool) \<times> filesystem" where
  "delete self fs =
     (if path_exists fs (cookie_file self)
      then (case os_remove fs (cookie_file self) of
              Inl e \<Rightarrow> (Inr False, fs)
            | Inr fs1 \<Rightarrow> (Inr True, fs1))
      else (Inr True, fs))"

text \<open>A file system with nothing in it on which no operation fails, and two cookies.\<close>

definition empty_fs :: filesystem where
  "empty_fs = \<lparr>nodes = (\<lambda>path. None), faulty = (\<lambda>operation path. False)\<rparr>"

definition two_cookies :: "cookie list" where
  "two_cookies =
     [[(''name'', JStr ''sid''), (''value'', JStr ''abc''), (''secure'', JBool True)],
      [(''name'', JStr ''uid''), (''value'', JStr ''42''), (''expiry'', JInt 1700000000)]]"

section \<open>Properties\<close>

lemma num_val_py_sub: "num_val (py_sub a b) = num_val a - num_val b"
  by (cases a; cases b) simp_all

lemma num_val_py_add: "num_val (py_add a b) = num_val a + num_val b"
  by (cases a; cases b) simp_all

subsection \<open>Median selection in sync\<close>

lemma sync_with_samples:
  assumes "collect_samples rounds \<noteq> []"
  shows "sync self rounds now =
     (let m = sort_key sample_diff (collect_samples rounds)
                ! (length (collect_samples rounds) div 2)
      in (m, self\<lparr>server_timestamp := Some (fst m), local_timestamp := Some (fst (snd m)),
                  time_diff := snd (snd m)\<rparr>))"
  using assms by (simp add: sync_def Let_def)

lemma sync_without_samples:
  assumes "collect_samples rounds = []"
  shows "sync self rounds now = ((PyInt now, PyInt now, PyInt 0), self)"
  using assms by (simp add: sync_def)

text \<open>
  A list whose keys are \<open>-50\<close>, \<open>10\<close> and \<open>1000\<close> in some order has the key \<open>10\<close> at
  index \<open>3 div 2\<close> once it is sorted: the sorted key list is determined by the multiset.
\<close>

lemma median_of_three_diffs:
  assumes "image_mset sample_diff (mset xs) = {#-50, 10, 1000#}"
  shows "sample_diff (sort_key sample_diff xs ! (length xs div 2)) = 10"
proof -
  let ?ys = "sort_key sample_diff xs"
  have perm: "mset (map sample_diff ?ys) = mset [-50, 10, 1000]"
    using assms by simp
  have "sort [-50, 10, 1000 :: rat] = map sample_diff ?ys"
    using properties_for_sort [OF perm sorted_sort_key] .
  then have keys: "map sample_diff ?ys = [-50, 10, 1000]"
    by simp
  have len: "length xs = 3"
    using arg_cong [OF keys, of length] by simp
  have "map sample_diff ?ys ! 1 = 10"
    by (simp add: keys)
  then show ?thesis
    using len by (simp add: nth_map)
qed

text \<open>
  C1. When at least one of the three rounds yields a sample, \<^verbatim>\<open>sync\<close> sorts the samples
  by their diff (the sorted list is a permutation of the samples, ascending in diff),
  takes the sample at index \<open>n div 2\<close> of the sorted list, returns its triple and stores
  it in the three fields. With three samples whose diffs are \<open>-50\<close>, \<open>10\<close> and \<open>1000\<close> in
  any order, the adopted diff is \<open>10\<close>.
\<close>

theorem sync_adopts_median_sample:
  assumes "collect_samples rounds = samples" and "samples \<noteq> []"
  shows "mset (sort_key sample_diff samples) = mset samples
       \<and> sorted (map sample_diff (sort_key sample_diff samples))
       \<and> sort_key sample_diff samples ! (length samples div 2) \<in> set samples
       \<and> fst (sync self rounds now) = sort_key sample_diff samples ! (length samples div 2)
       \<and> server_timestamp (snd (sync self rounds now)) = Some (fst (fst (sync self rounds now)))
       \<and> local_timestamp (snd (sync self rounds now))
             = Some (fst (snd (fst (sync self rounds now))))
       \<and> time_diff (snd (sync self rounds now)) = snd (snd (fst (sync self rounds now)))
       \<and> (image_mset sample_diff (mset samples) = {#-50, 10, 1000#} \<longrightarrow>
             sample_diff (fst (sync self rounds now)) = 10
           \<and> num_val (time_diff (snd (sync self rounds now))) = 10)"
proof -
  let ?ys = "sort_key sample_diff samples"
  let ?m = "?ys ! (length samples div 2)"
  have ne: "collect_samples rounds \<noteq> []"
    using assms by simp
  have res: "sync self rounds now =
      (?m, self\<lparr>server_timestamp := Some (fst ?m), local_timestamp := Some (fst (snd ?m)),
                  time_diff := snd (snd ?m)\<rparr>)"
    using sync_with_samples [OF ne, of self now] assms(1) by (simp add: Let_def)
  have "length samples div 2 < length ?ys"
    using assms(2) by simp
  then have "?m \<in> set ?ys"
    by (rule nth_mem)
  then have mem: "?m \<in> set samples"
    by simp
  have three: "sample_diff ?m = 10"
    if "image_mset sample_diff (mset samples) = {#-50, 10, 1000#}"
    using median_of_three_diffs [OF that] .
  show ?thesis
    using mem three by (simp add: res sorted_sort_key sample_diff_def)
qed

theorem sync_adopts_median_sample_witness:
  "collect_samples ((3000, ServerMs 2000, 3000), (1000, ServerMs 1050, 1000),
                    (2000, ServerMs 1990, 2000))
     = [(PyInt 2000, PyFloat 3000, PyFloat 1000), (PyInt 1050, PyFloat 1000, PyFloat (-50)),
        (PyInt 1990, PyFloat 2000, PyFloat 10)]
   \<and> fst (sync TimeSync_init ((3000, ServerMs 2000, 3000), (1000, ServerMs 1050, 1000),
                                (2000, ServerMs 1990, 2000)) 0)
     = (PyInt 1990, PyFloat 2000, PyFloat 10)
   \<and> time_diff (snd (sync TimeSync_init ((3000, ServerMs 2000, 3000),
                      (1000, ServerMs 1050, 1000), (2000, ServerMs 1990, 2000)) 0))
     = PyFloat 10"
proof -
  let ?rounds = "((3000, ServerMs 2000, 3000), (1000, ServerMs 1050, 1000),
                  (2000, ServerMs 1990, 2000)) :: round \<times> round \<times> round"
  let ?samples = "[(PyInt 2000, PyFloat 3000, PyFloat 1000),
                   (PyInt 1050, PyFloat 1000, PyFloat (-50)),
                   (PyInt 1990, PyFloat 2000, PyFloat 10)] :: sample list"
  have c: "collect_samples ?rounds = ?samples"
    by (simp add: collect_samples_def List.map_filter_def py_truediv_def)
  have n: "?samples \<noteq> []"
    by simp
  have d: "image_mset sample_diff (mset ?samples) = {#-50, 10, 1000#}"
    by (simp add: sample_diff_def)
  have s: "sort_key sample_diff ?samples ! (length ?samples div 2)
             = (PyInt 1990, PyFloat 2000, PyFloat 10)"
    by (simp add: sample_diff_def)
  show ?thesis
    using sync_adopts_median_sample [OF c n, of TimeSync_init 0] c d s by simp
qed

subsection \<open>Degraded mode of sync\<close>

text \<open>
  C5, as the code has it. When none of the three rounds yields a sample, \<^verbatim>\<open>sync\<close>
  returns \<open>(t, t, 0)\<close> for one clock reading \<open>t\<close> and leaves the object as it was: the
  stored offset is unchanged. On an object whose stored offset is still the initial 0
  the server time is then the raw clock reading.
\<close>

theorem sync_degraded_leaves_offset:
  assumes "sample_round r0 = None" and "sample_round r1 = None" and "sample_round r2 = None"
  shows "sync self (r0, r1, r2) t = ((PyInt t, PyInt t, PyInt 0), self)
       \<and> time_diff (snd (sync self (r0, r1, r2) t)) = time_diff self
       \<and> (time_diff self = PyInt 0 \<longrightarrow>
             get_server_time (snd (sync self (r0, r1, r2) t)) now = PyInt now)
       \<and> time_diff (snd (sync TimeSync_init (r0, r1, r2) t)) = PyInt 0
       \<and> get_server_time (snd (sync TimeSync_init (r0, r1, r2) t)) now = PyInt now"
proof -
  have "collect_samples (r0, r1, r2) = []"
    using assms by (simp add: collect_samples_def List.map_filter_def)
  then have "sync s (r0, r1, r2) t = ((PyInt t, PyInt t, PyInt 0), s)" for s
    by (rule sync_without_samples)
  then show ?thesis
    by (simp add: get_server_time_def TimeSync_init_def)
qed

theorem sync_degraded_leaves_offset_witness:
  "sample_round (5000, NoReply, 5003) = None
   \<and> sample_round (5100, ServerMs 0, 5103) = None
   \<and> sample_round (5200, Malformed, 5203) = None
   \<and> sync TimeSync_init ((5000, NoReply, 5003), (5100, ServerMs 0, 5103),
                           (5200, Malformed, 5203)) 5300
     = ((PyInt 5300, PyInt 5300, PyInt 0), TimeSync_init)
   \<and> get_server_time (snd (sync TimeSync_init ((5000, NoReply, 5003),
                            (5100, ServerMs 0, 5103), (5200, Malformed, 5203)) 5300)) 6000
     = PyInt 6000"
proof -
  have a: "sample_round (5000, NoReply, 5003) = None"
    and b: "sample_round (5100, ServerMs 0, 5103) = None"
    and c: "sample_round (5200, Malformed, 5203) = None"
    by simp_all
  show ?thesis
    using sync_degraded_leaves_offset [OF a b c, of TimeSync_init 5300 6000] a b c
    by blast
qed

text \<open>
  The claim as stated fails on an object that has synchronised before: the first call
  below adopts the offset \<open>10\<close>; the second call, whose three rounds all fail, reports
  the diff \<open>0\<close> but the stored offset stays \<open>10\<close>, and the server time derived from the
  clock reading \<open>8000\<close> is \<open>7990\<close>.
\<close>

theorem sync_degraded_offset_counterexample:
  "collect_samples ((5000, NoReply, 5003), (5100, NoReply, 5103), (5200, NoReply, 5203)) = []
   \<and> fst (sync (snd (sync TimeSync_init ((2000, ServerMs 1990, 2000), (2100, NoReply, 2100),
                                            (2200, NoReply, 2200)) 0))
               ((5000, NoReply, 5003), (5100, NoReply, 5103), (5200, NoReply, 5203)) 7000)
     = (PyInt 7000, PyInt 7000, PyInt 0)
   \<and> time_diff (snd (sync (snd (sync TimeSync_init ((2000, ServerMs 1990, 2000),
                                  (2100, NoReply, 2100), (2200, NoReply, 2200)) 0))
               ((5000, NoReply, 5003), (5100, NoReply, 5103), (5200, NoReply, 5203)) 7000))
     \<noteq> PyInt 0
   \<and> num_val (get_server_time (snd (sync (snd (sync TimeSync_init ((2000, ServerMs 1990, 2000),
                                  (2100, NoReply, 2100), (2200, NoReply, 2200)) 0))
               ((5000, NoReply, 5003), (5100, NoReply, 5103), (5200, NoReply, 5203)) 7000))
         8000) = 7990"
  by (simp add: sync_def collect_samples_def List.map_filter_def py_truediv_def
      sample_diff_def get_server_time_def TimeSync_init_def)

subsection \<open>The countdown\<close>

lemma num_val_py_max: "num_val (py_max a b) = max (num_val a) (num_val b)"
  by (simp add: py_max_def max_def)

lemma num_val_py_floordiv: "num_val (py_floordiv a b) = of_int \<lfloor>num_val a / num_val b\<rfloor>"
  by (cases a; cases b) (simp_all add: floor_divide_of_int_eq)

lemma num_val_py_mod:
  "num_val (py_mod a b) = num_val a - num_val b * of_int \<lfloor>num_val a / num_val b\<rfloor>"
proof (cases a; cases b)
  fix x y assume "a = PyInt x" "b = PyInt y"
  moreover have "(of_int (x mod y) :: rat) = of_int x - of_int y * of_int (x div y)"
    by (simp add: minus_div_mult_eq_mod [symmetric] algebra_simps flip: of_int_mult of_int_diff)
  ultimately show ?thesis
    by (simp add: floor_divide_of_int_eq)
qed simp_all

lemma get_remaining_ms_value:
  "num_val (get_remaining_ms self now) =
     (case target_time self of
        None \<Rightarrow> 0
      | Some target_ts \<Rightarrow>
          max (of_int target_ts - num_val (get_server_time (time_sync self) now)) 0)"
  by (simp add: get_remaining_ms_def num_val_py_max num_val_py_sub split: option.split)

lemma get_remaining_ms_nonneg: "0 \<le> num_val (get_remaining_ms self now)"
  by (simp add: get_remaining_ms_value split: option.split)

text \<open>
  C6. With a target stored, \<^verbatim>\<open>get_remaining_ms\<close> is \<open>max (targetMs - currentServerMs) 0\<close>
  for every target and clock reading, so it is never negative; when the server time has
  reached the target it is 0 and \<^verbatim>\<open>is_time_to_start\<close> holds; and \<^verbatim>\<open>is_time_to_start\<close>
  holds exactly when the remaining time is at most 0.
\<close>

theorem get_remaining_ms_floored_at_zero:
  "0 \<le> num_val (get_remaining_ms self now)
   \<and> (is_time_to_start self now \<longleftrightarrow> num_val (get_remaining_ms self now) \<le> 0)
   \<and> (target_time self = Some target_ts \<longrightarrow>
         num_val (get_remaining_ms self now)
           = max (of_int target_ts - num_val (get_server_time (time_sync self) now)) 0
       \<and> (of_int target_ts \<le> num_val (get_server_time (time_sync self) now) \<longrightarrow>
             num_val (get_remaining_ms self now) = 0 \<and> is_time_to_start self now)
       \<and> (is_time_to_start self now \<longleftrightarrow>
             of_int target_ts \<le> num_val (get_server_time (time_sync self) now)))"
  using get_remaining_ms_nonneg [of self now]
  by (auto simp add: is_time_to_start_def get_remaining_ms_value)

theorem get_remaining_ms_floored_at_zero_witness:
  "target_time (set_target (CountdownTimer_init TimeSync_init) 5000) = Some 5000
   \<and> get_server_time (time_sync (set_target (CountdownTimer_init TimeSync_init) 5000)) 6000
       = PyInt 6000
   \<and> num_val (get_remaining_ms (set_target (CountdownTimer_init TimeSync_init) 5000) 6000) = 0
   \<and> is_time_to_start (set_target (CountdownTimer_init TimeSync_init) 5000) 6000
   \<and> num_val (get_remaining_ms (set_target (CountdownTimer_init TimeSync_init) 5000) 4000)
       = 1000
   \<and> \<not> is_time_to_start (set_target (CountdownTimer_init TimeSync_init) 5000) 4000"
proof -
  let ?timer = "set_target (CountdownTimer_init TimeSync_init) 5000"
  have t: "target_time ?timer = Some 5000"
    by (simp add: set_target_def)
  have late: "get_server_time (time_sync ?timer) 6000 = PyInt 6000"
    and early: "get_server_time (time_sync ?timer) 4000 = PyInt 4000"
    by (simp_all add: set_target_def CountdownTimer_init_def TimeSync_init_def
        get_server_time_def)
  show ?thesis
    using get_remaining_ms_floored_at_zero [of ?timer 6000 5000]
      get_remaining_ms_floored_at_zero [of ?timer 4000 5000] t late early
    by simp
qed

subsection \<open>The breakdown of the remaining time\<close>

lemma floor_mod_bounds:
  fixes a b :: rat
  assumes "0 < b"
  shows "0 \<le> a - b * of_int \<lfloor>a / b\<rfloor>" and "a - b * of_int \<lfloor>a / b\<rfloor> < b"
proof -
  have "b * of_int \<lfloor>a / b\<rfloor> \<le> b * (a / b)"
    using assms by (intro mult_left_mono) simp_all
  also have "\<dots> = a"
    using assms by simp
  finally show "0 \<le> a - b * of_int \<lfloor>a / b\<rfloor>"
    by simp
  have "a / b < of_int \<lfloor>a / b\<rfloor> + 1"
    by linarith
  then have "b * (a / b) < b * (of_int \<lfloor>a / b\<rfloor> + 1)"
    using assms by (intro mult_strict_left_mono) simp_all
  then have "a < b * (of_int \<lfloor>a / b\<rfloor> + 1)"
    using assms by simp
  then show "a - b * of_int \<lfloor>a / b\<rfloor> < b"
    by (simp add: algebra_simps)
qed

lemma floor_div_bounds:
  fixes a b :: rat
  assumes "0 < b" and "0 \<le> a" and "a < of_int c * b"
  shows "0 \<le> (of_int \<lfloor>a / b\<rfloor> :: rat)" and "(of_int \<lfloor>a / b\<rfloor> :: rat) < of_int c"
proof -
  have "0 \<le> a / b"
    using assms by simp
  then show "0 \<le> (of_int \<lfloor>a / b\<rfloor> :: rat)"
    by simp
  have "a / b < of_int c"
    using assms by (simp add: pos_divide_less_eq)
  then have "\<lfloor>a / b\<rfloor> < c"
    by (simp add: floor_less_iff)
  then show "(of_int \<lfloor>a / b\<rfloor> :: rat) < of_int c"
    by simp
qed

lemma remaining_parts_breakdown:
  assumes "0 \<le> num_val R"
  shows "breakdown_of (num_val R) (remaining_parts R)"
proof -
  define r1 where "r1 = py_mod R (PyInt 86400000)"
  define r2 where "r2 = py_mod r1 (PyInt 3600000)"
  define r3 where "r3 = py_mod r2 (PyInt 60000)"
  define d where "d = py_floordiv R (PyInt 86400000)"
  define h where "h = py_floordiv r1 (PyInt 3600000)"
  define m where "m = py_floordiv r2 (PyInt 60000)"
  define s where "s = py_floordiv r3 (PyInt 1000)"
  define ms where "ms = py_mod r3 (PyInt 1000)"
  have parts: "remaining_parts R = (d, h, m, s, ms)"
    by (simp add: remaining_parts_def r1_def r2_def r3_def d_def h_def m_def s_def ms_def
        Let_def)
  have b1: "0 \<le> num_val r1" "num_val r1 < 86400000"
    using floor_mod_bounds [of 86400000 "num_val R"] by (simp_all add: r1_def num_val_py_mod)
  have b2: "0 \<le> num_val r2" "num_val r2 < 3600000"
    using floor_mod_bounds [of 3600000 "num_val r1"] by (simp_all add: r2_def num_val_py_mod)
  have b3: "0 \<le> num_val r3" "num_val r3 < 60000"
    using floor_mod_bounds [of 60000 "num_val r2"] by (simp_all add: r3_def num_val_py_mod)
  have bms: "0 \<le> num_val ms \<and> num_val ms < 1000"
    using floor_mod_bounds [of 1000 "num_val r3"] by (simp add: ms_def num_val_py_mod)
  have bh: "0 \<le> num_val h \<and> num_val h < 24"
    using floor_div_bounds [of 3600000 "num_val r1" 24] b1
    by (simp add: h_def num_val_py_floordiv)
  have bm: "0 \<le> num_val m \<and> num_val m < 60"
    using floor_div_bounds [of 60000 "num_val r2" 60] b2
    by (simp add: m_def num_val_py_floordiv)
  have bs: "0 \<le> num_val s \<and> num_val s < 60"
    using floor_div_bounds [of 1000 "num_val r3" 60] b3
    by (simp add: s_def num_val_py_floordiv)
  have bd: "0 \<le> num_val d"
    using assms by (simp add: d_def num_val_py_floordiv)
  have ints: "num_val d \<in> \<int>" "num_val h \<in> \<int>" "num_val m \<in> \<int>" "num_val s \<in> \<int>"
    by (simp_all add: d_def h_def m_def s_def num_val_py_floordiv)
  have total: "num_val d * 86400000 + num_val h * 3600000 + num_val m * 60000
      + num_val s * 1000 + num_val ms = num_val R"
    by (simp add: d_def h_def m_def s_def ms_def r1_def r2_def r3_def num_val_py_floordiv
        num_val_py_mod)
  show ?thesis
    unfolding breakdown_of_def parts using total ints bd bh bm bs bms by simp
qed

text \<open>
  C7. \<^verbatim>\<open>get_remaining_parts\<close> breaks every non-negative remaining time \<open>R\<close> down by
  successive floor division with the remainder carried on: the five parts add up to
  \<open>R\<close> with hours below 24, minutes and seconds below 60 and milliseconds below 1000.
  The method applies the breakdown to \<^verbatim>\<open>get_remaining_ms()\<close>, which is never negative,
  and 90,061,500 ms yield \<open>(1, 1, 1, 1, 500)\<close>.
\<close>

theorem get_remaining_parts_breakdown:
  "(0 \<le> num_val R \<longrightarrow> breakdown_of (num_val R) (remaining_parts R))
   \<and> breakdown_of (num_val (get_remaining_ms self now)) (get_remaining_parts self now)
   \<and> remaining_parts (PyInt 90061500) = (PyInt 1, PyInt 1, PyInt 1, PyInt 1, PyInt 500)
   \<and> get_remaining_parts (set_target (CountdownTimer_init TimeSync_init) 90061500) 0
       = (PyInt 1, PyInt 1, PyInt 1, PyInt 1, PyInt 500)"
proof -
  have "breakdown_of (num_val (get_remaining_ms self now)) (get_remaining_parts self now)"
    unfolding get_remaining_parts_def
    by (rule remaining_parts_breakdown) (rule get_remaining_ms_nonneg)
  moreover have "remaining_parts (PyInt 90061500)
      = (PyInt 1, PyInt 1, PyInt 1, PyInt 1, PyInt 500)"
    by (simp add: remaining_parts_def)
  moreover have "get_remaining_ms (set_target (CountdownTimer_init TimeSync_init) 90061500) 0
      = PyInt 90061500"
    by (simp add: get_remaining_ms_def set_target_def CountdownTimer_init_def
        TimeSync_init_def get_server_time_def py_max_def)
  ultimately show ?thesis
    using remaining_parts_breakdown [of R] by (simp add: get_remaining_parts_def)
qed

theorem get_remaining_parts_breakdown_witness:
  "0 \<le> num_val (PyFloat (180123001 / 2))
   \<and> remaining_parts (PyFloat (180123001 / 2))
       = (PyFloat 1, PyFloat 1, PyFloat 1, PyFloat 1, PyFloat (1001 / 2))
   \<and> breakdown_of (180123001 / 2)
         (PyFloat 1, PyFloat 1, PyFloat 1, PyFloat 1, PyFloat (1001 / 2))"
proof -
  have p: "remaining_parts (PyFloat (180123001 / 2))
      = (PyFloat 1, PyFloat 1, PyFloat 1, PyFloat 1, PyFloat (1001 / 2))"
    by code_simp
  have n: "0 \<le> num_val (PyFloat (180123001 / 2))"
    by simp
  show ?thesis
    using get_remaining_parts_breakdown [of "PyFloat (180123001 / 2)"] p n by simp
qed

subsection \<open>A countdown with no target\<close>

text \<open>
  C10. Before \<^verbatim>\<open>set_target\<close> is called (no target stored), \<^verbatim>\<open>get_remaining_ms\<close> is the
  int 0, \<^verbatim>\<open>is_time_to_start\<close> holds, and \<^verbatim>\<open>wait_until_ready\<close> with \<open>advance_ms \<ge> 0\<close>
  leaves the loop at its first test: it returns without a log line, a sleep or an
  exception, whatever the clock does.
\<close>

theorem no_target_is_open:
  assumes "target_time self = None" and "0 \<le> advance_ms"
  shows "get_remaining_ms self now = PyInt 0
       \<and> is_time_to_start self now
       \<and> wait_until_ready self advance_ms clock k trace = Some (Inr (), trace)
       \<and> wait_until_ready self advance_ms clock 0 [] = Some (Inr (), [])"
proof -
  have r: "get_remaining_ms self t = PyInt 0" for t
    using assms(1) by (simp add: get_remaining_ms_def)
  have "wait_until_ready self advance_ms clock j tr = Some (Inr (), tr)" for j tr
    using assms(2) by (subst wait_until_ready.simps) (simp add: r)
  then show ?thesis
    by (simp add: r is_time_to_start_def)
qed

theorem no_target_is_open_witness:
  "target_time (CountdownTimer_init TimeSync_init) = None
   \<and> get_remaining_ms (CountdownTimer_init TimeSync_init) 1700000000000 = PyInt 0
   \<and> is_time_to_start (CountdownTimer_init TimeSync_init) 1700000000000
   \<and> wait_until_ready (CountdownTimer_init TimeSync_init) 0 (\<lambda>k. 1700000000000 + int k) 0 []
       = Some (Inr (), [])"
proof -
  have t: "target_time (CountdownTimer_init TimeSync_init) = None"
    by (simp add: CountdownTimer_init_def)
  have a: "(0::int) \<le> 0"
    by simp
  show ?thesis
    using no_target_is_open [OF t a, of 1700000000000 "\<lambda>k. 1700000000000 + int k" 0 "[]"] t
    by simp
qed

section \<open>Properties of the configuration\<close>

subsection \<open>The getters never raise\<close>

lemma try_except_Inr: "\<exists>v. try_except body (\<lambda>e. Inr (h e)) = Inr v"
  by (cases body) (simp_all add: try_except_def)

lemma try_except_raised: "body = Inl e \<Longrightarrow> try_except body (\<lambda>e. Inr d) = Inr d"
  by (simp add: try_except_def)

lemma try_except_returned: "body = Inr v \<Longrightarrow> try_except body handler = Inr v"
  by (simp add: try_except_def)

text \<open>
  C2. Whatever the parser does for a section and key, each of \<^verbatim>\<open>get\<close>, \<^verbatim>\<open>getboolean\<close>,
  \<^verbatim>\<open>getint\<close> and \<^verbatim>\<open>getfloat\<close> returns a value and never raises; when the parser raises
  (missing section, missing key, text that fails the coercion) the value is the
  default the caller supplied, and when the parser returns a value it is passed on.
\<close>

theorem getters_fail_soft:
  "(\<exists>v. get config section option sd = Inr v)
   \<and> (\<exists>v. getboolean config section option bd = Inr v)
   \<and> (\<exists>v. getint config section option nd = Inr v)
   \<and> (\<exists>v. getfloat config section option fd = Inr v)
   \<and> (cp_get config section option = Inl e \<longrightarrow>
         get config section option (Some s) = Inr s)
   \<and> (cp_getboolean config section option = Inl e \<longrightarrow>
         getboolean config section option (Some b) = Inr b)
   \<and> (cp_getint config section option = Inl e \<longrightarrow>
         getint config section option (Some n) = Inr n)
   \<and> (cp_getfloat config section option = Inl e \<longrightarrow>
         getfloat config section option (Some x) = Inr x)
   \<and> (cp_get config section option = Inr s \<longrightarrow> get config section option sd = Inr s)
   \<and> (cp_getboolean config section option = Inr b \<longrightarrow>
         getboolean config section option bd = Inr b)
   \<and> (cp_getint config section option = Inr n \<longrightarrow> getint config section option nd = Inr n)
   \<and> (cp_getfloat config section option = Inr x \<longrightarrow>
         getfloat config section option fd = Inr x)"
proof (intro conjI impI)
  show "\<exists>v. get config section option sd = Inr v"
    unfolding get_def by (rule try_except_Inr)
  show "\<exists>v. getboolean config section option bd = Inr v"
    unfolding getboolean_def by (rule try_except_Inr)
  show "\<exists>v. getint config section option nd = Inr v"
    unfolding getint_def by (rule try_except_Inr)
  show "\<exists>v. getfloat config section option fd = Inr v"
    unfolding getfloat_def by (rule try_except_Inr)
  show "get config section option (Some s) = Inr s"
    if "cp_get config section option = Inl e"
    unfolding get_def using try_except_raised [OF that] by (simp add: default_or_def)
  show "getboolean config section option (Some b) = Inr b"
    if "cp_getboolean config section option = Inl e"
    unfolding getboolean_def using try_except_raised [OF that] by (simp add: default_or_def)
  show "getint config section option (Some n) = Inr n"
    if "cp_getint config section option = Inl e"
    unfolding getint_def using try_except_raised [OF that] by (simp add: default_or_def)
  show "getfloat config section option (Some x) = Inr x"
    if "cp_getfloat config section option = Inl e"
    unfolding getfloat_def using try_except_raised [OF that] by (simp add: default_or_def)
  show "get config section option sd = Inr s" if "cp_get config section option = Inr s"
    unfolding get_def using that by (rule try_except_returned)
  show "getboolean config section option bd = Inr b"
    if "cp_getboolean config section option = Inr b"
    unfolding getboolean_def using that by (rule try_except_returned)
  show "getint config section option nd = Inr n" if "cp_getint config section option = Inr n"
    unfolding getint_def using that by (rule try_except_returned)
  show "getfloat config section option fd = Inr x"
    if "cp_getfloat config section option = Inr x"
    unfolding getfloat_def using that by (rule try_except_returned)
qed

theorem getters_fail_soft_witness:
  "cp_get thread_abc_parser ''browser'' ''missingKey'' = Inl NoSectionError
   \<and> get thread_abc_parser ''browser'' ''missingKey'' (Some ''x'') = Inr ''x''
   \<and> cp_getboolean thread_abc_parser ''process'' ''headless'' = Inl NoOptionError
   \<and> getboolean thread_abc_parser ''process'' ''headless'' (Some True) = Inr True
   \<and> cp_getint thread_abc_parser ''process'' ''thread'' = Inl ValueError
   \<and> getint thread_abc_parser ''process'' ''thread'' (Some 1) = Inr 1
   \<and> cp_getfloat thread_abc_parser ''process'' ''thread'' = Inl ValueError
   \<and> getfloat thread_abc_parser ''process'' ''thread'' (Some (1 / 1000)) = Inr (1 / 1000)
   \<and> cp_get thread_abc_parser ''process'' ''thread'' = Inr ''abc''
   \<and> get thread_abc_parser ''process'' ''thread'' (Some ''x'') = Inr ''abc''"
proof -
  have a: "cp_get thread_abc_parser ''browser'' ''missingKey'' = Inl NoSectionError"
    and b: "cp_getboolean thread_abc_parser ''process'' ''headless'' = Inl NoOptionError"
    and c: "cp_getint thread_abc_parser ''process'' ''thread'' = Inl ValueError"
    and d: "cp_getfloat thread_abc_parser ''process'' ''thread'' = Inl ValueError"
    and e: "cp_get thread_abc_parser ''process'' ''thread'' = Inr ''abc''"
    by (simp_all add: thread_abc_parser_def)
  note t = getters_fail_soft
  have g1: "get thread_abc_parser ''browser'' ''missingKey'' (Some ''x'') = Inr ''x''"
    by (rule t [THEN conjunct2, THEN conjunct2, THEN conjunct2, THEN conjunct2,
          THEN conjunct1, THEN mp, OF a])
  have g2: "getboolean thread_abc_parser ''process'' ''headless'' (Some True) = Inr True"
    by (rule t [THEN conjunct2, THEN conjunct2, THEN conjunct2, THEN conjunct2,
          THEN conjunct2, THEN conjunct1, THEN mp, OF b])
  have g3: "getint thread_abc_parser ''process'' ''thread'' (Some 1) = Inr 1"
    by (rule t [THEN conjunct2, THEN conjunct2, THEN conjunct2, THEN conjunct2,
          THEN conjunct2, THEN conjunct2, THEN conjunct1, THEN mp, OF c])
  have g4: "getfloat thread_abc_parser ''process'' ''thread'' (Some (1 / 1000))
      = Inr (1 / 1000)"
    by (rule t [THEN conjunct2, THEN conjunct2, THEN conjunct2, THEN conjunct2,
          THEN conjunct2, THEN conjunct2, THEN conjunct2, THEN conjunct1, THEN mp, OF d])
  have g5: "get thread_abc_parser ''process'' ''thread'' (Some ''x'') = Inr ''abc''"
    by (rule t [THEN conjunct2, THEN conjunct2, THEN conjunct2, THEN conjunct2,
          THEN conjunct2, THEN conjunct2, THEN conjunct2, THEN conjunct2, THEN conjunct1,
          THEN mp, OF e])
  show ?thesis
    by (intro conjI) (fact a b c d e g1 g2 g3 g4 g5)+
qed

subsection \<open>What validate returns\<close>

lemma validate_errors:
  "fst (validate c) =
     (if user_name (user c) = '''' then [EmptyUserName] else [])
   @ (if user_password (user c) = '''' then [EmptyPassword] else [])
   @ (if product_id (product c) = '''' then [EmptyProductId] else [])
   @ (if browser_type (browser c) \<notin> set SUPPORTED_BROWSERS
      then [UnsupportedBrowser (browser_type (browser c))] else [])
   @ (if thread (process c) < 1 then [ThreadBelowOne] else [])"
  by (simp add: validate_def Let_def split_def)

lemma validate_warnings:
  "fst (snd (validate c)) =
     (if color (product c) = '''' then [NoColor] else [])
   @ (if version (product c) = '''' then [NoVersion] else [])
   @ (if headless (browser c) \<and> user_agent (browser c) = ''''
      then [HeadlessWithoutUserAgent] else [])
   @ (if 20 < thread (process c) then [ThreadAboveMax 20] else [])
   @ (if interval (process c) < 1 / 1000 then [IntervalBelowMin (1 / 1000)] else [])"
  by (simp add: validate_def Let_def split_def MAX_THREADS_def MIN_INTERVAL_def)

lemma validate_config:
  "snd (snd (validate c)) =
     c\<lparr>process := (process c)
         \<lparr>thread := (if 20 < thread (process c) then 20 else thread (process c)),
          interval := (if interval (process c) < 1 / 1000 then 1 / 1000
                       else interval (process c))\<rparr>\<rparr>"
  by (simp add: validate_def Let_def split_def MAX_THREADS_def MIN_INTERVAL_def)

text \<open>
  C3. \<^verbatim>\<open>validate\<close> treats \<^verbatim>\<open>process.thread\<close> asymmetrically. A thread count above 20
  is set to exactly 20 with a warning, and the error list is the one of the same
  settings with 20 threads (no error is added). A thread count below 1 adds an error
  and stays as it is. An interval below 0.001 is set to exactly 0.001 with a warning,
  and the error list is the one of the same settings with the interval 0.001.
\<close>

theorem validate_thread_and_interval:
  "(20 < thread (process c) \<longrightarrow>
        thread (process (snd (snd (validate c)))) = 20
      \<and> ThreadAboveMax 20 \<in> set (fst (snd (validate c)))
      \<and> ThreadBelowOne \<notin> set (fst (validate c))
      \<and> fst (validate c) = fst (validate (with_thread c 20)))
   \<and> (thread (process c) < 1 \<longrightarrow>
        ThreadBelowOne \<in> set (fst (validate c))
      \<and> thread (process (snd (snd (validate c)))) = thread (process c)
      \<and> ThreadAboveMax 20 \<notin> set (fst (snd (validate c))))
   \<and> (interval (process c) < 1 / 1000 \<longrightarrow>
        interval (process (snd (snd (validate c)))) = 1 / 1000
      \<and> IntervalBelowMin (1 / 1000) \<in> set (fst (snd (validate c)))
      \<and> fst (validate c) = fst (validate (with_interval c (1 / 1000))))"
  by (simp add: validate_errors validate_warnings validate_config with_thread_def
      with_interval_def)

theorem validate_thread_and_interval_witness:
  "20 < thread (process (with_interval (with_thread minimal_config 50) (1 / 10000)))
   \<and> interval (process (with_interval (with_thread minimal_config 50) (1 / 10000))) < 1 / 1000
   \<and> thread (process (snd (snd (validate
         (with_interval (with_thread minimal_config 50) (1 / 10000)))))) = 20
   \<and> interval (process (snd (snd (validate
         (with_interval (with_thread minimal_config 50) (1 / 10000)))))) = 1 / 1000
   \<and> validate (with_interval (with_thread minimal_config 50) (1 / 10000))
       = ([], [NoColor, NoVersion, ThreadAboveMax 20, IntervalBelowMin (1 / 1000)],
          with_thread minimal_config 20)
   \<and> thread (process (with_thread minimal_config 0)) < 1
   \<and> ThreadBelowOne \<in> set (fst (validate (with_thread minimal_config 0)))
   \<and> thread (process (snd (snd (validate (with_thread minimal_config 0)))))
       = thread (process (with_thread minimal_config 0))"
proof -
  let ?X = "with_interval (with_thread minimal_config 50) (1 / 10000)"
  let ?Y = "with_thread minimal_config 0"
  have big: "20 < thread (process ?X)"
    and small: "interval (process ?X) < 1 / 1000"
    and low: "thread (process ?Y) < 1"
    by (simp_all add: with_thread_def with_interval_def minimal_config_def)
  note tx = validate_thread_and_interval [of ?X]
  note ty = validate_thread_and_interval [of ?Y]
  note above = tx [THEN conjunct1, THEN mp, OF big]
  note floor = tx [THEN conjunct2, THEN conjunct2, THEN mp, OF small]
  note below = ty [THEN conjunct2, THEN conjunct1, THEN mp, OF low]
  have run: "validate ?X
     = ([], [NoColor, NoVersion, ThreadAboveMax 20, IntervalBelowMin (1 / 1000)],
        with_thread minimal_config 20)"
    by (simp add: prod_eq_iff validate_errors validate_warnings validate_config
        with_thread_def with_interval_def minimal_config_def SUPPORTED_BROWSERS_def)
  show ?thesis
    by (intro conjI)
      (fact big small low run above [THEN conjunct1] floor [THEN conjunct1]
        below [THEN conjunct1] below [THEN conjunct2, THEN conjunct1])+
qed


text \<open>
  C4. The returned error list is non-empty whenever the user name, the password or the
  product id is empty or the browser type is none of chrome, firefox, edge and safari;
  each of the four conditions puts its own error on the list, whatever the other
  fields hold. A configuration with all three fields non-empty, a supported browser
  type, a thread count from 1 to 20 and an interval of at least 0.001 gets the empty
  list.
\<close>

theorem validate_required_fields:
  "(EmptyUserName \<in> set (fst (validate c)) \<longleftrightarrow> user_name (user c) = '''')
   \<and> (EmptyPassword \<in> set (fst (validate c)) \<longleftrightarrow> user_password (user c) = '''')
   \<and> (EmptyProductId \<in> set (fst (validate c)) \<longleftrightarrow> product_id (product c) = '''')
   \<and> (UnsupportedBrowser (browser_type (browser c)) \<in> set (fst (validate c)) \<longleftrightarrow>
         browser_type (browser c) \<notin> {''chrome'', ''firefox'', ''edge'', ''safari''})
   \<and> (user_name (user c) = '''' \<or> user_password (user c) = ''''
        \<or> product_id (product c) = ''''
        \<or> browser_type (browser c) \<notin> {''chrome'', ''firefox'', ''edge'', ''safari''}
       \<longrightarrow> fst (validate c) \<noteq> [])
   \<and> (user_name (user c) \<noteq> '''' \<and> user_password (user c) \<noteq> ''''
        \<and> product_id (product c) \<noteq> ''''
        \<and> browser_type (browser c) \<in> {''chrome'', ''firefox'', ''edge'', ''safari''}
        \<and> 1 \<le> thread (process c) \<and> thread (process c) \<le> 20
        \<and> 1 / 1000 \<le> interval (process c)
       \<longrightarrow> fst (validate c) = [])"
  by (simp add: validate_errors SUPPORTED_BROWSERS_def)



theorem validate_required_fields_witness:
  "fst (validate minimal_config) = []
   \<and> user_name (user (minimal_config\<lparr>user := \<lparr>user_name = [], user_password = ''secret''\<rparr>\<rparr>))
       = []
   \<and> EmptyUserName \<in> set (fst (validate
         (minimal_config\<lparr>user := \<lparr>user_name = [], user_password = ''secret''\<rparr>\<rparr>)))
   \<and> fst (validate (minimal_config\<lparr>user := \<lparr>user_name = [], user_password = ''secret''\<rparr>\<rparr>))
       \<noteq> []
   \<and> fst (validate (minimal_config\<lparr>user := \<lparr>user_name = ''alice'', user_password = []\<rparr>\<rparr>))
       = [EmptyPassword]
   \<and> fst (validate (minimal_config\<lparr>product := (product minimal_config)\<lparr>product_id := []\<rparr>\<rparr>))
       = [EmptyProductId]
   \<and> fst (validate (minimal_config
              \<lparr>browser := (browser minimal_config)\<lparr>browser_type := ''opera''\<rparr>\<rparr>))
       = [UnsupportedBrowser ''opera'']
   \<and> fst (validate (minimal_config
              \<lparr>browser := (browser minimal_config)\<lparr>browser_type := ''safari''\<rparr>\<rparr>))
       = []"
proof -
  let ?N = "minimal_config\<lparr>user := \<lparr>user_name = [], user_password = ''secret''\<rparr>\<rparr>"
  have ok: "user_name (user minimal_config) \<noteq> [] \<and> user_password (user minimal_config) \<noteq> []
        \<and> product_id (product minimal_config) \<noteq> []
        \<and> browser_type (browser minimal_config) \<in> {''chrome'', ''firefox'', ''edge'', ''safari''}
        \<and> 1 \<le> thread (process minimal_config) \<and> thread (process minimal_config) \<le> 20
        \<and> 1 / 1000 \<le> interval (process minimal_config)"
    by (simp add: minimal_config_def)
  have full: "fst (validate minimal_config) = []"
    by (rule validate_required_fields [of minimal_config, THEN conjunct2, THEN conjunct2,
          THEN conjunct2, THEN conjunct2, THEN conjunct2, THEN mp, OF ok])
  have noname: "user_name (user ?N) = []"
    by simp
  have e1: "EmptyUserName \<in> set (fst (validate ?N))"
    by (rule validate_required_fields [of ?N, THEN conjunct1, THEN iffD2, OF noname])
  have any: "user_name (user ?N) = [] \<or> user_password (user ?N) = []
        \<or> product_id (product ?N) = []
        \<or> browser_type (browser ?N) \<notin> {''chrome'', ''firefox'', ''edge'', ''safari''}"
    using noname by (rule disjI1)
  have e2: "fst (validate ?N) \<noteq> []"
    by (rule validate_required_fields [of ?N, THEN conjunct2, THEN conjunct2,
          THEN conjunct2, THEN conjunct2, THEN conjunct1, THEN mp, OF any])
  have r1: "fst (validate (minimal_config\<lparr>user := \<lparr>user_name = ''alice'', user_password = []\<rparr>\<rparr>))
       = [EmptyPassword]"
    by (simp add: validate_errors minimal_config_def SUPPORTED_BROWSERS_def)
  have r2: "fst (validate (minimal_config\<lparr>product := (product minimal_config)\<lparr>product_id := []\<rparr>\<rparr>))
       = [EmptyProductId]"
    by (simp add: validate_errors minimal_config_def SUPPORTED_BROWSERS_def)
  have r3: "fst (validate (minimal_config
              \<lparr>browser := (browser minimal_config)\<lparr>browser_type := ''opera''\<rparr>\<rparr>))
       = [UnsupportedBrowser ''opera'']"
    by (simp add: validate_errors minimal_config_def SUPPORTED_BROWSERS_def)
  have r4: "fst (validate (minimal_config
              \<lparr>browser := (browser minimal_config)\<lparr>browser_type := ''safari''\<rparr>\<rparr>))
       = []"
    by (simp add: validate_errors minimal_config_def SUPPORTED_BROWSERS_def)
  show ?thesis
    by (intro conjI) (fact full noname e1 e2 r1 r2 r3 r4)+
qed

section \<open>Properties of the utilities\<close>

subsection \<open>The retry decorator\<close>















subsection \<open>CookieManager\<close>

lemma write_outcome:
  "write' self cookies fs =
     (if faulty fs OpenWrite (cookie_file self) \<or> nodes fs (cookie_file self) = Some Directory
      then (Inr False, fs)
      else if faulty fs WriteData (cookie_file self)
      then (Inr False, fs\<lparr>nodes := (nodes fs)(cookie_file self \<mapsto> File Junk)\<rparr>)
      else (Inr True,
            fs\<lparr>nodes := (nodes fs)(cookie_file self \<mapsto>
                 File (JsonText (JList (map JDict cookies))))\<rparr>))"
  by (simp add: write'_def open_w_def json_dump_def)

lemma read_returns: "\<exists>v. read self fs = Inr v"
  by (simp add: read_def split: sum.split)

lemma read_written:
  assumes "fst (write' self cookies fs) = Inr True"
    and "\<not> faulty fs OpenRead (cookie_file self)"
  shows "read self (snd (write' self cookies fs)) = Inr (JList (map JDict cookies))"
  using assms
  by (simp add: write_outcome read_def path_exists_def open_r_def split: if_splits)

lemma delete_outcome:
  "delete self fs =
     (case nodes fs (cookie_file self) of
        None \<Rightarrow> (Inr True, fs)
      | Some Directory \<Rightarrow> (Inr False, fs)
      | Some (File content) \<Rightarrow>
          if faulty fs Remove (cookie_file self) then (Inr False, fs)
          else (Inr True, fs\<lparr>nodes := (nodes fs)(cookie_file self := None)\<rparr>))"
  by (simp add: delete_def path_exists_def os_remove_def split: option.split node.split)

lemma read_deleted:
  assumes "fst (delete self fs) = Inr True"
  shows "read self (snd (delete self fs)) = Inr JNone"
  using assms
  by (simp add: delete_outcome read_def path_exists_def
      split: option.splits node.splits if_splits)

lemma read_missing:
  assumes "\<not> path_exists fs (cookie_file self)"
  shows "read self fs = Inr JNone"
  using assms by (simp add: read_def)

lemma delete_missing:
  assumes "\<not> path_exists fs (cookie_file self)"
  shows "delete self fs = (Inr True, fs)"
  using assms by (simp add: delete_def)

text \<open>
  C8. None of the three methods raises. When \<^verbatim>\<open>write\<close> reports success and the file can
  be opened for reading, \<^verbatim>\<open>read\<close> returns the list of cookie maps that was written, for
  every such list; \<^verbatim>\<open>write\<close> does report success when the path is no directory and
  the operating system lets the file be opened and written. After a \<^verbatim>\<open>delete\<close> that
  reports success \<^verbatim>\<open>read\<close> returns \<^verbatim>\<open>None\<close>. When the file does not exist, \<^verbatim>\<open>read\<close>
  returns \<^verbatim>\<open>None\<close> and \<^verbatim>\<open>delete\<close> returns \<^verbatim>\<open>True\<close> and changes nothing.
\<close>

theorem cookie_file_round_trip:
  "(\<exists>b. fst (write' self cookies fs) = Inr b)
   \<and> (\<exists>v. read self fs = Inr v)
   \<and> (\<exists>b. fst (delete self fs) = Inr b)
   \<and> (fst (write' self cookies fs) = Inr True \<and> \<not> faulty fs OpenRead (cookie_file self) \<longrightarrow>
         read self (snd (write' self cookies fs)) = Inr (JList (map JDict cookies)))
   \<and> (\<not> faulty fs OpenWrite (cookie_file self) \<and> \<not> faulty fs WriteData (cookie_file self)
        \<and> nodes fs (cookie_file self) \<noteq> Some Directory \<longrightarrow>
         fst (write' self cookies fs) = Inr True)
   \<and> (fst (delete self fs) = Inr True \<longrightarrow> read self (snd (delete self fs)) = Inr JNone)
   \<and> (\<not> path_exists fs (cookie_file self) \<longrightarrow>
         read self fs = Inr JNone \<and> delete self fs = (Inr True, fs))"
proof (intro conjI impI)
  show "\<exists>b. fst (write' self cookies fs) = Inr b"
    by (auto simp add: write_outcome)
  show "\<exists>v. read self fs = Inr v"
    by (rule read_returns)
  show "\<exists>b. fst (delete self fs) = Inr b"
    by (auto simp add: delete_outcome split: option.split node.split)
  show "read self (snd (write' self cookies fs)) = Inr (JList (map JDict cookies))"
    if "fst (write' self cookies fs) = Inr True \<and> \<not> faulty fs OpenRead (cookie_file self)"
    using that by (intro read_written) simp_all
  show "fst (write' self cookies fs) = Inr True"
    if "\<not> faulty fs OpenWrite (cookie_file self) \<and> \<not> faulty fs WriteData (cookie_file self)
        \<and> nodes fs (cookie_file self) \<noteq> Some Directory"
    using that by (simp add: write_outcome)
  show "read self (snd (delete self fs)) = Inr JNone" if "fst (delete self fs) = Inr True"
    using that by (rule read_deleted)
  show "read self fs = Inr JNone" if "\<not> path_exists fs (cookie_file self)"
    using that by (rule read_missing)
  show "delete self fs = (Inr True, fs)" if "\<not> path_exists fs (cookie_file self)"
    using that by (rule delete_missing)
qed

theorem cookie_file_round_trip_witness:
  "fst (write' (CookieManager_init ''/p/hw_cookies.txt'' None) two_cookies empty_fs) = Inr True
   \<and> \<not> faulty empty_fs OpenRead (cookie_file (CookieManager_init ''/p/hw_cookies.txt'' None))
   \<and> read (CookieManager_init ''/p/hw_cookies.txt'' None)
        (snd (write' (CookieManager_init ''/p/hw_cookies.txt'' None) two_cookies empty_fs))
       = Inr (JList (map JDict two_cookies))
   \<and> fst (delete (CookieManager_init ''/p/hw_cookies.txt'' None)
        (snd (write' (CookieManager_init ''/p/hw_cookies.txt'' None) two_cookies empty_fs)))
       = Inr True
   \<and> read (CookieManager_init ''/p/hw_cookies.txt'' None)
        (snd (delete (CookieManager_init ''/p/hw_cookies.txt'' None)
          (snd (write' (CookieManager_init ''/p/hw_cookies.txt'' None) two_cookies empty_fs))))
       = Inr JNone
   \<and> \<not> path_exists empty_fs (cookie_file (CookieManager_init ''/p/hw_cookies.txt'' None))
   \<and> read (CookieManager_init ''/p/hw_cookies.txt'' None) empty_fs = Inr JNone
   \<and> delete (CookieManager_init ''/p/hw_cookies.txt'' None) empty_fs = (Inr True, empty_fs)"
proof -
  let ?cm = "CookieManager_init ''/p/hw_cookies.txt'' None"
  let ?fs1 = "snd (write' ?cm two_cookies empty_fs)"
  have w: "fst (write' ?cm two_cookies empty_fs) = Inr True"
    by (simp add: write_outcome empty_fs_def)
  have r: "\<not> faulty empty_fs OpenRead (cookie_file ?cm)"
    by (simp add: empty_fs_def)
  have wr: "fst (write' ?cm two_cookies empty_fs) = Inr True
      \<and> \<not> faulty empty_fs OpenRead (cookie_file ?cm)"
    using w r by (rule conjI)
  have d: "fst (delete ?cm ?fs1) = Inr True"
    by (simp add: delete_outcome write_outcome empty_fs_def)
  have m: "\<not> path_exists empty_fs (cookie_file ?cm)"
    by (simp add: path_exists_def empty_fs_def)
  note t0 = cookie_file_round_trip [of ?cm two_cookies empty_fs]
  note t1 = cookie_file_round_trip [of ?cm two_cookies ?fs1]
  note again = t0 [THEN conjunct2, THEN conjunct2, THEN conjunct2, THEN conjunct1, THEN mp, OF wr]
  note gone = t1 [THEN conjunct2, THEN conjunct2, THEN conjunct2, THEN conjunct2,
      THEN conjunct2, THEN conjunct1, THEN mp, OF d]
  note absent = t0 [THEN conjunct2, THEN conjunct2, THEN conjunct2, THEN conjunct2,
      THEN conjunct2, THEN conjunct2, THEN mp, OF m]
  show ?thesis
    by (intro conjI) (fact w r again d gone m absent [THEN conjunct1] absent [THEN conjunct2])+
qed

end
